theory Spec2Isabelle
  imports Complex_Main
begin

section \<open>Emotional dynamics models: the right-hand sides and the derived quantities\<close>

text \<open>
  The program is one Python script, \<^verbatim>\<open>emotional_simulation.py\<close>. It defines four
  right-hand-side functions, fixes their coefficients as module-level values, derives two
  equilibrium values from the coefficients by division, and hands the right-hand sides to
  the library routines \<^verbatim>\<open>np.linspace\<close> and \<^verbatim>\<open>odeint\<close>.

  Python floats are read as real numbers, so every operation below is the exact one;
  rounding, underflow, infinities and NaN are outside the model. The script computes in
  IEEE double precision, where a product or a quotient is rounded. The statements made
  here are therefore limited to what does not depend on rounding: which calls raise, how
  many items a call returns, and identities in which every operation is exact in double
  arithmetic on finite values (a product with zero, a sum with zero, one expression
  evaluated twice). Where the roots of a right-hand side lie, and which value a quotient
  takes, is decided by rounding and is not stated.

  What is kept of Python is its control behaviour: the float division \<^verbatim>\<open>a / b\<close>
  raises \<^verbatim>\<open>ZeroDivisionError\<close> when \<open>b\<close> is zero, and unpacking \<^verbatim>\<open>x, y = z\<close>
  raises \<^verbatim>\<open>ValueError\<close> when \<open>z\<close> does not hold exactly two items. A raise is the
  left injection of a sum.
\<close>

datatype py_error = ZeroDivisionError | ValueError

text \<open>Python's \<^verbatim>\<open>a / b\<close> on floats.\<close>

definition truediv :: "real \<Rightarrow> real \<Rightarrow> py_error + real" where
  "truediv a b = (if b = 0 then Inl ZeroDivisionError else Inr (a / b))"

subsection \<open>Model I: linear decay\<close>

text \<open>
  \<^verbatim>\<open>
  def linear_decay(y, t, k):
      return -k * y
  \<close>
\<close>

definition linear_decay :: "real \<Rightarrow> real \<Rightarrow> real \<Rightarrow> real" where
  "linear_decay y t k = - k * y"

subsection \<open>Model II: environmental forcing\<close>

text \<open>
  \<^verbatim>\<open>
  def forced_response(y, t, k, c):
      return -k * y + c

  equilibrium = c / k
  \<close>
  The script evaluates the division once, at \<open>c = 2.0\<close> and \<open>k = 0.5\<close>; here the
  two coefficients are the arguments.
\<close>

definition forced_response :: "real \<Rightarrow> real \<Rightarrow> real \<Rightarrow> real \<Rightarrow> real" where
  "forced_response y t k c = - k * y + c"

definition equilibrium :: "real \<Rightarrow> real \<Rightarrow> py_error + real" where
  "equilibrium c k = truediv c k"

subsection \<open>Model III: the reference value of the nonlinear regulation\<close>

text \<open>
  \<^verbatim>\<open>
  stable_eq = 1 - (k_nonlin/a)
  \<close>
  The script evaluates \<open>stable_eq\<close> at \<open>k_nonlin = 0.2\<close> and \<open>a = 0.8\<close>; here the two
  coefficients are the arguments.
\<close>

definition stable_eq :: "real \<Rightarrow> real \<Rightarrow> py_error + real" where
  "stable_eq k_nonlin a =
     (case truediv k_nonlin a of Inl e \<Rightarrow> Inl e | Inr q \<Rightarrow> Inr (1 - q))"

subsection \<open>Model IV: the coupled system\<close>

text \<open>
  \<^verbatim>\<open>
  def coupled_system(z, t, a, b, c):
      x, y = z
      dxdt = -a * x + b * y
      dydt = -c * y
      return [dxdt, dydt]
  \<close>
  The state \<open>z\<close> is a sequence; the unpacking in the first line raises unless it has
  exactly two items.
\<close>

fun coupled_system :: "real list \<Rightarrow> real \<Rightarrow> real \<Rightarrow> real \<Rightarrow> real \<Rightarrow> py_error + real list" where
  "coupled_system [x, y] t a b c = Inr [- a * x + b * y, - c * y]"
| "coupled_system z t a b c = Inl ValueError"

subsection \<open>The time grid\<close>

text \<open>
  \<^verbatim>\<open>
  t = np.linspace(0, 20, 100)
  t_long = np.linspace(0, 30, 100)
  \<close>
  The script has no grid routine of its own: both grids are direct calls of NumPy's
  \<^verbatim>\<open>linspace\<close> with the end point included. The definition follows that routine's
  documented algorithm: a negative \<open>num\<close> raises \<^verbatim>\<open>ValueError\<close>; otherwise the
  samples are \<open>0, 1, \<dots>, num - 1\<close> scaled by \<open>(stop - start) / (num - 1)\<close> (by
  \<open>stop - start\<close> when there are fewer than two samples) and shifted by \<open>start\<close>, and
  with more than one sample the last one is overwritten by \<open>stop\<close>.
\<close>

definition linspace :: "real \<Rightarrow> real \<Rightarrow> int \<Rightarrow> py_error + real list" where
  "linspace start stop num =
     (if num < 0 then Inl ValueError
      else
        let divisor = num - 1;
            delta = stop - start;
            y = map real [0..<nat num];
            y = (if divisor > 0
                 then (let step = delta / real_of_int divisor
                       in if step = 0 then map (\<lambda>v. v / real_of_int divisor * delta) y
                          else map (\<lambda>v. v * step) y)
                 else map (\<lambda>v. v * delta) y);
            y = map (\<lambda>v. v + start) y
        in Inr (if num > 1 then y[nat num - 1 := stop] else y))"

section \<open>Equilibria\<close>

text \<open>
  C1 (as the code has it). The equilibrium values are unguarded divisions. The forced
  response's \<open>equilibrium c k\<close> raises \<open>ZeroDivisionError\<close> exactly when \<open>k\<close> is
  zero, and the nonlinear model's \<open>stable_eq k a\<close> raises it exactly when \<open>a\<close> is
  zero; a zero denominator is never turned into a returned value.
\<close>

theorem equilibrium_raises_iff_zero_denominator:
  "(equilibrium c k = Inl ZeroDivisionError \<longleftrightarrow> k = 0) \<and>
   (stable_eq k a = Inl ZeroDivisionError \<longleftrightarrow> a = 0) \<and>
   equilibrium c 0 = Inl ZeroDivisionError \<and>
   stable_eq k 0 = Inl ZeroDivisionError"
  by (simp add: equilibrium_def stable_eq_def truediv_def)

text \<open>
  C1 as the specification words it fails: with \<open>k = 0\<close> and \<open>c = 2.0\<close> the
  equilibrium computation does not return; it raises \<open>ZeroDivisionError\<close>.
\<close>

theorem equilibrium_zero_rate_raises:
  "equilibrium 2.0 0 = Inl ZeroDivisionError \<and> \<not> (\<exists>v. equilibrium 2.0 0 = Inr v)"
  by (simp add: equilibrium_def truediv_def)



text \<open>
  C9. In the coupled system \<open>y\<close> evolves independently of \<open>x\<close>: for every \<open>t\<close>, \<open>a\<close>,
  \<open>b\<close>, \<open>c\<close> and \<open>y\<close> and any two values \<open>x1\<close> and \<open>x2\<close>, both calls return a
  two-item derivative, and the second items (\<open>dy/dt\<close>) are equal.
\<close>

theorem coupled_system_dydt_independent_of_x:
  "\<exists>dx1 dx2 dy.
     coupled_system [x1, y] t a b c = Inr [dx1, dy] \<and>
     coupled_system [x2, y] t a b c = Inr [dx2, dy]"
  by simp

section \<open>The time grid\<close>

text \<open>
  C2 (as the code has it). The grid call fails only for a negative sample count, and
  then with \<open>ValueError\<close>. For every count \<open>num \<ge> 0\<close>, whatever the order of \<open>start\<close>
  and \<open>stop\<close>, it returns a sequence of exactly \<open>num\<close> samples: the empty sequence for
  a count of zero and the single sample \<open>start\<close> for a count of one.
\<close>

theorem linspace_fails_only_for_negative_count:
  "(num < 0 \<longrightarrow> linspace start stop num = Inl ValueError) \<and>
   (0 \<le> num \<longrightarrow> (\<exists>xs. linspace start stop num = Inr xs \<and> int (length xs) = num)) \<and>
   linspace start stop 0 = Inr [] \<and>
   linspace start stop 1 = Inr [start]"
  by (simp add: linspace_def Let_def)

theorem linspace_fails_only_for_negative_count_witness:
  "(-1 :: int) < 0 \<and> linspace 0 20 (-1) = Inl ValueError \<and>
   (0 :: int) \<le> 100 \<and> (\<exists>xs. linspace 0 20 100 = Inr xs \<and> int (length xs) = 100)"
  using linspace_fails_only_for_negative_count [of "-1" 0 20]
    linspace_fails_only_for_negative_count [of 100 0 20]
  by simp

text \<open>
  C2 as the specification words it fails: a count of one and a reversed range are both
  accepted. \<open>linspace 0 20 1\<close> returns the single sample \<open>0\<close>, and \<open>linspace 20 0 3\<close>
  returns the decreasing samples \<open>20, 10, 0\<close>.
\<close>

theorem linspace_accepts_single_sample_and_reversed_range:
  "linspace 0 20 1 = Inr [0] \<and> linspace 20 0 3 = Inr [20, 10, 0]"
  by (simp add: linspace_def Let_def upt_rec)

section \<open>The models against each other\<close>

text \<open>
  C10. With the forcing constant zero the forced response is the linear decay: for every
  \<open>y\<close>, \<open>t\<close> and \<open>k\<close>, \<open>forced_response y t k 0\<close> equals \<open>linear_decay y t k\<close>.
\<close>

theorem forced_response_zero_forcing_is_linear_decay:
  "forced_response y t k 0 = linear_decay y t k"
  by (simp add: forced_response_def linear_decay_def)

section \<open>What the model leaves out\<close>

text \<open>
  The trajectories are computed by SciPy's \<^verbatim>\<open>odeint\<close>, an adaptive floating-point
  solver outside the script; the script only passes it a right-hand side, an initial
  state, a grid and the coefficients. Nothing here stands for its output, so no statement
  about the sampled trajectories is made. The script also has no step that builds or
  validates a set of coefficients: they are literal assignments.

  The zero sets of the right-hand sides and the values of \<open>c / k\<close> and
  \<open>1 - k_nonlin / a\<close> are properties of rounded double arithmetic. Over the reals
  \<open>- k * y + c\<close> vanishes only at \<open>c / k\<close>, but in doubles the rounded quotient need not
  be a root, a right-hand side can have two neighbouring roots, and a tiny state can
  underflow to a zero derivative. No statement about them is made.
\<close>

end
